theory Spec2Isabelle
  imports Main "HOL-Library.Word" "HOL-Library.AList"
begin

section \<open>JavaScript values shared by the handlers\<close>

text \<open>
  A thrown value is either an \<open>Error\<close> object (with its \<open>name\<close> and \<open>message\<close>) or any other
  value, kept by its \<open>String(...)\<close> rendering. Strings are modelled by their UTF-8 bytes, so
  \<open>Buffer.byteLength\<close> is \<open>length\<close>.
\<close>

datatype js_error = JsError string string | Thrown string

text \<open>\<open>error instanceof Error ? error.message : String(error)\<close>\<close>

fun error_text :: "js_error \<Rightarrow> string" where
  "error_text (JsError n m) = m"
| "error_text (Thrown s) = s"

text \<open>\<open>String(error)\<close>: \<open>Error.prototype.toString\<close> for an Error object.\<close>

fun String_of_error :: "js_error \<Rightarrow> string" where
  "String_of_error (JsError n m) = (if n = [] then m else if m = [] then n else n @ '': '' @ m)"
| "String_of_error (Thrown s) = s"

type_synonym bytes = "8 word list"

text \<open>\<open>x || d\<close> for \<open>x\<close> a string, \<open>null\<close> or \<open>undefined\<close>: the empty string is falsy too.\<close>

fun or_default :: "string option \<Rightarrow> string \<Rightarrow> string" where
  "or_default None d = d"
| "or_default (Some s) d = (if s = [] then d else s)"

section \<open>The URL class of the platform\<close>

text \<open>
  A parsed URL. Its serialisation is \<open>prefix\<close> (scheme, \<open>//\<close>, credentials, host and port),
  then the path, then \<open>?query\<close> when the query is not null, then \<open>#fragment\<close> when the
  fragment is not null.
\<close>

record url =
  prefix :: string
  host :: string
  pathname :: string
  query :: "string option"
  fragment :: "string option"
  special :: bool

definition href :: "url \<Rightarrow> string" where
  "href u = prefix u @ pathname u
     @ (case query u of None \<Rightarrow> [] | Some q \<Rightarrow> CHR ''?'' # q)
     @ (case fragment u of None \<Rightarrow> [] | Some f \<Rightarrow> CHR ''#'' # f)"

text \<open>The \<open>search\<close> getter: empty when the query is null or empty.\<close>

definition search :: "url \<Rightarrow> string" where
  "search u = (case query u of None \<Rightarrow> [] | Some q \<Rightarrow> if q = [] then [] else CHR ''?'' # q)"

definition hex_digit :: "nat \<Rightarrow> char" where
  "hex_digit n = ''0123456789ABCDEF'' ! (n mod 16)"

definition percent_encode :: "char \<Rightarrow> string" where
  "percent_encode c = [CHR ''%'', hex_digit ((of_char c :: nat) div 16), hex_digit (of_char c :: nat)]"

text \<open>
  The query percent-encode set: C0 controls, space, \<open>"\<close>, \<open>#\<close>, \<open><\<close>, \<open>>\<close>, every byte above
  \<open>~\<close>, and \<open>'\<close> as well when the scheme is special (http, https, ...).
\<close>

definition in_query_set :: "bool \<Rightarrow> char \<Rightarrow> bool" where
  "in_query_set sp c = ((of_char c :: nat) \<le> 32 \<or> (of_char c :: nat) > 126
     \<or> c = CHR 0x22 \<or> c = CHR ''#'' \<or> c = CHR ''<'' \<or> c = CHR ''>''
     \<or> (sp \<and> c = CHR 0x27))"

definition encode_query :: "bool \<Rightarrow> string \<Rightarrow> string" where
  "encode_query sp s = concat (map (\<lambda>c. if in_query_set sp c then percent_encode c else [c]) s)"

definition is_tab_or_newline :: "char \<Rightarrow> bool" where
  "is_tab_or_newline c = (c = CHR 0x09 \<or> c = CHR 0x0A \<or> c = CHR 0x0D)"

text \<open>
  The \<open>search\<close> setter: the empty string clears the query; otherwise one leading \<open>?\<close> is
  dropped, tabs and newlines are removed, and the rest is percent-encoded as a query.
\<close>

definition set_search :: "url \<Rightarrow> string \<Rightarrow> url" where
  "set_search u v =
     (if v = [] then u\<lparr>query := None\<rparr>
      else let inp = (if hd v = CHR ''?'' then tl v else v)
           in u\<lparr>query := Some (encode_query (special u) (filter (\<lambda>c. \<not> is_tab_or_newline c) inp))\<rparr>)"

subsection \<open>The parser, computed on origin-form targets against a plain http base\<close>

text \<open>
  \<open>new URL(input, base)\<close> is computed here for the inputs the gateway normally sees: a base
  \<open>http://host\<close> or \<open>http://host:port\<close> whose host is made of lower-case letters and dots,
  and an input \<open>/path\<close> or \<open>/path?query\<close> without fragment. On every other pair the result is
  left to a parameter of the environment (\<open>URL_other\<close>), which may also raise.
\<close>

definition is_lower_letter :: "char \<Rightarrow> bool" where
  "is_lower_letter c = (97 \<le> (of_char c :: nat) \<and> (of_char c :: nat) \<le> 122)"

definition is_digit :: "char \<Rightarrow> bool" where
  "is_digit c = (48 \<le> (of_char c :: nat) \<and> (of_char c :: nat) \<le> 57)"

definition is_upper_letter :: "char \<Rightarrow> bool" where
  "is_upper_letter c = (65 \<le> (of_char c :: nat) \<and> (of_char c :: nat) \<le> 90)"

text \<open>Path characters that the path state keeps as they are and that form no dot segment.\<close>

definition is_plain_path_char :: "char \<Rightarrow> bool" where
  "is_plain_path_char c = (is_lower_letter c \<or> is_upper_letter c \<or> is_digit c
     \<or> c = CHR ''-'' \<or> c = CHR ''_'' \<or> c = CHR ''~'' \<or> c = CHR ''/'')"

text \<open>Labels of lower-case letters separated by single dots.\<close>

fun plain_hostname :: "string \<Rightarrow> bool" where
  "plain_hostname [] = False"
| "plain_hostname [c] = is_lower_letter c"
| "plain_hostname (c # d # cs) =
     (is_lower_letter c \<and> (if d = CHR ''.'' then plain_hostname cs else plain_hostname (d # cs)))"

fun digits_value :: "nat \<Rightarrow> string \<Rightarrow> nat" where
  "digits_value acc [] = acc"
| "digits_value acc (c # cs) = digits_value (10 * acc + ((of_char c :: nat) - 48)) cs"

text \<open>A port that the serialiser keeps: decimal, no leading zero, at most 65535, not the default 80.\<close>

definition plain_port :: "string \<Rightarrow> bool" where
  "plain_port p = (p \<noteq> [] \<and> list_all is_digit p \<and> hd p \<noteq> CHR ''0'' \<and> length p \<le> 5
     \<and> digits_value 0 p \<le> 65535 \<and> digits_value 0 p \<noteq> 80)"

definition plain_host_port :: "string \<Rightarrow> bool" where
  "plain_host_port hp =
     (let h = takeWhile (\<lambda>c. c \<noteq> CHR '':'') hp; r = dropWhile (\<lambda>c. c \<noteq> CHR '':'') hp
      in plain_hostname h \<and> (r = [] \<or> plain_port (tl r)))"

definition plain_http_base :: "string \<Rightarrow> string option" where
  "plain_http_base b =
     (if take 7 b = ''http://'' \<and> plain_host_port (drop 7 b) then Some (drop 7 b) else None)"

definition is_printable :: "char \<Rightarrow> bool" where
  "is_printable c = (33 \<le> (of_char c :: nat) \<and> (of_char c :: nat) \<le> 126)"

definition origin_form :: "string \<Rightarrow> bool" where
  "origin_form i =
     (let p = takeWhile (\<lambda>c. c \<noteq> CHR ''?'') i
      in p \<noteq> [] \<and> hd p = CHR ''/'' \<and> (tl p = [] \<or> hd (tl p) \<noteq> CHR ''/'')
         \<and> list_all is_plain_path_char p \<and> list_all is_printable i \<and> CHR ''#'' \<notin> set i)"

definition parse_origin_form :: "string \<Rightarrow> string \<Rightarrow> url option" where
  "parse_origin_form i b =
     (case plain_http_base b of
        None \<Rightarrow> None
      | Some hp \<Rightarrow>
          if origin_form i then
            let p = takeWhile (\<lambda>c. c \<noteq> CHR ''?'') i; r = dropWhile (\<lambda>c. c \<noteq> CHR ''?'') i
            in Some \<lparr>prefix = ''http://'' @ hp, host = hp, pathname = p,
                     query = (if r = [] then None else Some (encode_query True (tl r))),
                     fragment = None, special = True\<rparr>
          else None)"

definition URL_new :: "(string \<Rightarrow> string \<Rightarrow> js_error + url) \<Rightarrow> string \<Rightarrow> string \<Rightarrow> js_error + url" where
  "URL_new other i b = (case parse_origin_form i b of Some u \<Rightarrow> Inr u | None \<Rightarrow> other i b)"

section \<open>The function gateway (\<open>function-proxy.ts\<close>)\<close>

subsection \<open>Requests, collaborators and responses\<close>

text \<open>A value of \<open>req.headers\<close>: a string, or an array of strings for a repeated header.\<close>

datatype header_value = Single string | Multiple "string list"

record 'b request =
  slug :: string
  req_url :: string
  req_method :: string
  req_headers :: "(string \<times> header_value) list"
  req_body :: 'b

record fetch_request =
  fr_url :: string
  fr_method :: string
  fr_headers :: "(string \<times> string) list"
  fr_body :: "string option"

text \<open>
  What \<open>fetch\<close> resolves to: the status, the header lines as received, and the outcome of
  \<open>arrayBuffer()\<close>, which can still fail while the body is read.
\<close>

record upstream_response =
  up_status :: nat
  up_raw_headers :: "(string \<times> string) list"
  up_arrayBuffer :: "js_error + bytes"

text \<open>
  The collaborators of the handler: the environment variable, the function service (whose
  accessor and methods may raise), the parser on URLs outside the computed fragment,
  \<open>JSON.stringify\<close> (which may raise, or give \<open>undefined\<close>), and \<open>fetch\<close>.
\<close>

record 'b gateway_env =
  DENO_RUNTIME_URL :: "string option"
  getInstance :: "js_error option"
  isSubhostingConfigured :: "js_error + bool"
  getDeploymentUrl :: "js_error + string option"
  URL_other :: "string \<Rightarrow> string \<Rightarrow> js_error + url"
  JSON_stringify :: "'b \<Rightarrow> js_error + string option"
  fetch :: "fetch_request \<Rightarrow> js_error + upstream_response"

text \<open>
  The response, as the handler hands it to the framework's response object: the status given to
  \<open>res.status\<close>, the headers given to \<open>res.set\<close> (kept by lower-cased name, a later value
  for a name replacing an earlier one), and what is passed to \<open>res.send\<close> or \<open>res.json\<close>.
  What the framework adds on its own when it writes the response (a length and an entity tag
  for the body, a charset on a textual content type) is outside this record.
\<close>

datatype sent = SendBuffer bytes | SendJson "(string \<times> string) list"

record response =
  res_status :: nat
  res_headers :: "string \<rightharpoonup> string"
  res_sent :: sent

record log_entry =
  log_level :: string
  log_message :: string
  log_meta :: "(string \<times> string) list"

subsection \<open>Header names\<close>

definition lower_char :: "char \<Rightarrow> char" where
  "lower_char c = (if is_upper_letter c then char_of ((of_char c :: nat) + 32) else c)"

definition lower :: "string \<Rightarrow> string" where
  "lower s = map lower_char s"

text \<open>
  The \<open>Headers\<close> object of the fetch library: names are lower-cased, and a repeated name
  keeps one entry whose values are joined by a comma and a space. \<open>entries()\<close> yields these
  pairs, one per name.
\<close>

fun Headers_append :: "(string \<times> string) list \<Rightarrow> string \<Rightarrow> string \<Rightarrow> (string \<times> string) list" where
  "Headers_append [] k v = [(k, v)]"
| "Headers_append ((k', v') # h) k v =
     (if k' = k then (k', v' @ '', '' @ v) # h else (k', v') # Headers_append h k v)"

definition Headers_entries :: "(string \<times> string) list \<Rightarrow> (string \<times> string) list" where
  "Headers_entries raw = fold (\<lambda>(k, v) h. Headers_append h (lower k) v) raw []"

text \<open>\<open>res.set(name, value)\<close>: the response keeps its headers by lower-cased name.\<close>

definition res_set :: "string \<Rightarrow> string \<Rightarrow> (string \<rightharpoonup> string) \<Rightarrow> (string \<rightharpoonup> string)" where
  "res_set k v hs = hs(lower k \<mapsto> v)"

text \<open>\<open>res.set(object)\<close>: one \<open>res.set(name, value)\<close> per own property.\<close>

definition res_set_all :: "(string \<times> string) list \<Rightarrow> (string \<rightharpoonup> string) \<Rightarrow> (string \<rightharpoonup> string)" where
  "res_set_all obj hs = fold (\<lambda>(k, v). res_set k v) obj hs"

subsection \<open>The handler\<close>

text \<open>Lines 13 to 19: the base URL, resolved from the collaborators on every call.\<close>

definition localRuntime :: "'b gateway_env \<Rightarrow> string" where
  "localRuntime env = or_default (DENO_RUNTIME_URL env) ''http://localhost:7133''"

definition resolveBaseUrl :: "'b gateway_env \<Rightarrow> js_error + string" where
  "resolveBaseUrl env =
     (case getInstance env of
        Some e \<Rightarrow> Inl e
      | None \<Rightarrow>
          (case isSubhostingConfigured env of
             Inl e \<Rightarrow> Inl e
           | Inr configured \<Rightarrow>
               if configured then
                 (case getDeploymentUrl env of
                    Inl e \<Rightarrow> Inl e
                  | Inr d \<Rightarrow> Inr (or_default d (localRuntime env)))
               else Inr (localRuntime env)))"

fun join_commas :: "string list \<Rightarrow> string" where
  "join_commas [] = []"
| "join_commas [x] = x"
| "join_commas (x # y # ys) = x @ '','' @ join_commas (y # ys)"

text \<open>\<open>req.headers.host || 'localhost'\<close>, as the template string renders it.\<close>

definition incoming_host :: "'b request \<Rightarrow> string" where
  "incoming_host req =
     (case map_of (req_headers req) ''host'' of
        None \<Rightarrow> ''localhost''
      | Some (Single h) \<Rightarrow> or_default (Some h) ''localhost''
      | Some (Multiple hs) \<Rightarrow> join_commas hs)"

text \<open>Lines 22 to 24: the target URL with the search of the incoming URL.\<close>

definition buildTargetUrl :: "'b gateway_env \<Rightarrow> 'b request \<Rightarrow> string \<Rightarrow> js_error + url" where
  "buildTargetUrl env req baseUrl =
     (case URL_new (URL_other env) (CHR ''/'' # slug req) baseUrl of
        Inl e \<Rightarrow> Inl e
      | Inr targetUrl \<Rightarrow>
          (case URL_new (URL_other env) (req_url req) (''http://'' @ incoming_host req) of
             Inl e \<Rightarrow> Inl e
           | Inr incomingUrl \<Rightarrow> Inr (set_search targetUrl (search incomingUrl))))"

text \<open>Lines 27 to 33: the string-valued headers, then \<open>host\<close> overwritten.\<close>

fun copy_headers :: "(string \<times> header_value) list \<Rightarrow> (string \<times> string) list \<Rightarrow> (string \<times> string) list" where
  "copy_headers [] headers = headers"
| "copy_headers ((k, Single v) # es) headers = copy_headers es (AList.update k v headers)"
| "copy_headers ((k, Multiple vs) # es) headers = copy_headers es headers"

definition buildHeaders :: "'b request \<Rightarrow> url \<Rightarrow> (string \<times> string) list" where
  "buildHeaders req targetUrl = AList.update ''host'' (host targetUrl) (copy_headers (req_headers req) [])"

text \<open>Line 40: no body for GET and HEAD, the serialised parsed body otherwise.\<close>

definition upstreamBody :: "'b gateway_env \<Rightarrow> 'b request \<Rightarrow> js_error + string option" where
  "upstreamBody env req =
     (if req_method req \<in> set [''GET'', ''HEAD''] then Inr None else JSON_stringify env (req_body req))"

text \<open>
  The argument of \<open>fetch\<close> (lines 37 to 41): the request that is sent upstream, or the error
  raised before the call.
\<close>

definition buildUpstreamRequest :: "'b gateway_env \<Rightarrow> 'b request \<Rightarrow> js_error + fetch_request" where
  "buildUpstreamRequest env req =
     (case resolveBaseUrl env of
        Inl e \<Rightarrow> Inl e
      | Inr baseUrl \<Rightarrow>
          (case buildTargetUrl env req baseUrl of
             Inl e \<Rightarrow> Inl e
           | Inr targetUrl \<Rightarrow>
               (case upstreamBody env req of
                  Inl e \<Rightarrow> Inl e
                | Inr b \<Rightarrow> Inr \<lparr>fr_url = href targetUrl, fr_method = req_method req,
                               fr_headers = buildHeaders req targetUrl, fr_body = b\<rparr>)))"

text \<open>Lines 47 to 55: the response headers that are forwarded.\<close>

definition excluded_headers :: "string list" where
  "excluded_headers = [''transfer-encoding'', ''content-length'', ''connection'', ''content-encoding'']"

fun filter_headers :: "(string \<times> string) list \<Rightarrow> (string \<times> string) list \<Rightarrow> (string \<times> string) list" where
  "filter_headers [] responseHeaders = responseHeaders"
| "filter_headers ((k, v) # es) responseHeaders =
     (if k \<in> set excluded_headers then filter_headers es responseHeaders
      else filter_headers es (AList.update k v responseHeaders))"

text \<open>Lines 57 to 61.\<close>

definition relay :: "upstream_response \<Rightarrow> bytes \<Rightarrow> response" where
  "relay up responseBody =
     \<lparr>res_status = up_status up,
      res_headers = res_set ''Access-Control-Allow-Origin'' ''*''
        (res_set_all (filter_headers (Headers_entries (up_raw_headers up)) []) Map.empty),
      res_sent = SendBuffer responseBody\<rparr>"

text \<open>Lines 62 to 69: the \<open>catch\<close> block.\<close>

definition gateway_error :: "js_error \<Rightarrow> response" where
  "gateway_error e =
     \<lparr>res_status = 502, res_headers = Map.empty,
      res_sent = SendJson [(''error'', ''GATEWAY_ERROR''),
                           (''message'', ''Failed to reach edge function runtime''),
                           (''details'', error_text e)]\<rparr>"

definition log_failure :: "'b request \<Rightarrow> js_error \<Rightarrow> log_entry" where
  "log_failure req e = \<lparr>log_level = ''error'', log_message = ''Failed to proxy function'',
     log_meta = [(''slug'', slug req), (''error'', String_of_error e)]\<rparr>"

definition log_proxying :: "'b request \<Rightarrow> string \<Rightarrow> log_entry" where
  "log_proxying req target = \<lparr>log_level = ''debug'', log_message = ''Proxying function request'',
     log_meta = [(''slug'', slug req), (''targetUrl'', target)]\<rparr>"

text \<open>
  The handler (lines 9 to 70) returns what it logged and the response it sent. The debug line
  is written once the target and the headers are built; the body is serialised after it, as an
  argument of the call of \<open>fetch\<close>.
\<close>

definition failed :: "'b request \<Rightarrow> log_entry list \<Rightarrow> js_error \<Rightarrow> log_entry list \<times> response" where
  "failed req logs e = (logs @ [log_failure req e], gateway_error e)"

definition functionProxyHandler :: "'b gateway_env \<Rightarrow> 'b request \<Rightarrow> log_entry list \<times> response" where
  "functionProxyHandler env req =
     (case resolveBaseUrl env of
        Inl e \<Rightarrow> failed req [] e
      | Inr baseUrl \<Rightarrow>
          (case buildTargetUrl env req baseUrl of
             Inl e \<Rightarrow> failed req [] e
           | Inr targetUrl \<Rightarrow>
               (let headers = buildHeaders req targetUrl;
                    debug = [log_proxying req (href targetUrl)]
                in case upstreamBody env req of
                     Inl e \<Rightarrow> failed req debug e
                   | Inr b \<Rightarrow>
                       (case fetch env \<lparr>fr_url = href targetUrl, fr_method = req_method req,
                                         fr_headers = headers, fr_body = b\<rparr> of
                          Inl e \<Rightarrow> failed req debug e
                        | Inr up \<Rightarrow>
                            (case up_arrayBuffer up of
                               Inl e \<Rightarrow> failed req debug e
                             | Inr responseBody \<Rightarrow> (debug, relay up responseBody))))))"

subsection \<open>Concrete collaborators and requests\<close>

text \<open>
  No deployment configured, no runtime URL set, and an upstream that refuses the connection.
\<close>

definition env_local :: "unit gateway_env" where
  "env_local = \<lparr>DENO_RUNTIME_URL = None, getInstance = None, isSubhostingConfigured = Inr False,
     getDeploymentUrl = Inr None, URL_other = (\<lambda>i b. Inl (JsError ''TypeError'' ''Invalid URL'')),
     JSON_stringify = (\<lambda>b. Inr (Some ''{}'')),
     fetch = (\<lambda>fr. Inl (JsError ''FetchError'' ''connect ECONNREFUSED 127.0.0.1:7133''))\<rparr>"

definition req_hello :: "unit request" where
  "req_hello = \<lparr>slug = ''hello'', req_url = ''/functions/hello?x=1'', req_method = ''GET'',
     req_headers = [(''host'', Single ''localhost''), (''accept'', Single ''*/*'')], req_body = ()\<rparr>"

definition fr_hello :: fetch_request where
  "fr_hello = \<lparr>fr_url = ''http://localhost:7133/hello?x=1'', fr_method = ''GET'',
     fr_headers = [(''host'', ''localhost:7133''), (''accept'', ''*/*'')], fr_body = None\<rparr>"

text \<open>A managed deployment is configured and resolves to a URL; the upstream answers.\<close>

definition up_ok :: upstream_response where
  "up_ok = \<lparr>up_status = 200,
     up_raw_headers = [(''Content-Type'', ''text/plain''), (''Content-Encoding'', ''gzip''),
                       (''X-Request-Id'', ''7''), (''Content-Length'', ''2'')],
     up_arrayBuffer = Inr [104, 105]\<rparr>"

definition env_managed :: "unit gateway_env" where
  "env_managed = \<lparr>DENO_RUNTIME_URL = Some ''http://deno:7133'', getInstance = None,
     isSubhostingConfigured = Inr True, getDeploymentUrl = Inr (Some ''http://functions.example''),
     URL_other = (\<lambda>i b. Inl (JsError ''TypeError'' ''Invalid URL'')),
     JSON_stringify = (\<lambda>b. Inr (Some ''{}'')),
     fetch = (\<lambda>fr. Inr up_ok)\<rparr>"

definition req_post :: "unit request" where
  "req_post = \<lparr>slug = ''hello'', req_url = ''/functions/hello'', req_method = ''POST'',
     req_headers = [(''host'', Single ''localhost''), (''content-type'', Single ''application/json''),
                    (''set-cookie'', Multiple [''a=1'', ''b=2''])], req_body = ()\<rparr>"

definition fr_post :: fetch_request where
  "fr_post = \<lparr>fr_url = ''http://functions.example/hello'', fr_method = ''POST'',
     fr_headers = [(''host'', ''functions.example''), (''content-type'', ''application/json'')],
     fr_body = Some ''{}''\<rparr>"


definition req_bare :: "unit request" where
  "req_bare = req_hello\<lparr>req_url := ''/functions/hello?''\<rparr>"

section \<open>Startup and shutdown (the server entry point)\<close>

text \<open>
  The subsystems are collaborators: each call acts on the state of the outside world and may
  raise. A call that raises may still have changed the world. The calls made are recorded in
  order, next to what was logged and the exit status once \<open>process.exit\<close> was called.
\<close>

datatype call =
  DatabaseInitialize | StorageInitialize | LogInitialize | InitSqlParser | SeedBackend
  | Listen | SocketInitialize | RealtimeInitialize | SyncDeployment
  | RealtimeClose | SocketClose | OAuthPKCEDestroy | DestroyEmailCooldownInterval

type_synonym 'w action = "'w \<Rightarrow> js_error option \<times> 'w"

record 'w subsystems =
  db_initialize :: "'w action"
  storage_initialize :: "'w action"
  log_initialize :: "'w action"
  initSqlParser :: "'w action"
  seedBackend :: "'w action"
  app_listen :: "'w action"
  socket_initialize :: "'w action"
  realtime_initialize :: "'w action"
  syncDeployment :: "'w action"
  syncDeployment_rejects :: "'w \<Rightarrow> js_error option"
  realtime_close :: "'w action"
  socket_close :: "'w action"
  pkce_destroy :: "'w action"
  destroyEmailCooldownInterval :: "'w action"

record 'w process =
  world :: 'w
  calls :: "call list"
  logged :: "log_entry list"
  exit_code :: "nat option"

definition log_error :: "string \<Rightarrow> js_error \<Rightarrow> log_entry" where
  "log_error msg e = \<lparr>log_level = ''error'', log_message = msg, log_meta = [(''error'', error_text e)]\<rparr>"

definition log_info :: "string \<Rightarrow> log_entry" where
  "log_info msg = \<lparr>log_level = ''info'', log_message = msg, log_meta = []\<rparr>"

text \<open>One call: the world moves on and the call is recorded, whether it raised or not.\<close>

definition perform :: "call \<Rightarrow> 'w action \<Rightarrow> 'w process \<Rightarrow> js_error option \<times> 'w process" where
  "perform c a p = (case a (world p) of (r, w) \<Rightarrow> (r, p\<lparr>world := w, calls := calls p @ [c]\<rparr>))"





text \<open>One \<open>try { ... } catch (error) { logger.error(...) }\<close> of \<open>cleanup\<close>.\<close>

definition guarded :: "call \<Rightarrow> string \<Rightarrow> 'w action \<Rightarrow> 'w process \<Rightarrow> 'w process" where
  "guarded c msg a p =
     (case perform c a p of
        (Some e, p') \<Rightarrow> p'\<lparr>logged := logged p' @ [log_error msg e]\<rparr>
      | (None, p') \<Rightarrow> p')"

text \<open>\<open>cleanup\<close> (lines 282 to 321).\<close>

definition cleanup :: "'w subsystems \<Rightarrow> 'w process \<Rightarrow> 'w process" where
  "cleanup s p =
     (let p0 = p\<lparr>logged := logged p @ [log_info ''Shutting down gracefully...'']\<rparr>;
          p1 = guarded RealtimeClose ''Error closing RealtimeManager'' (realtime_close s) p0;
          p2 = guarded SocketClose ''Error closing SocketManager'' (socket_close s) p1;
          p3 = guarded OAuthPKCEDestroy ''Error closing OAuthPKCEService'' (pkce_destroy s) p2;
          p4 = guarded DestroyEmailCooldownInterval ''Error clearing email cooldown interval''
                 (destroyEmailCooldownInterval s) p3
      in p4\<lparr>exit_code := Some 0\<rparr>)"

subsection \<open>Subsystem handles\<close>







text \<open>Subsystems over a counter of the calls that went through, with chosen calls raising.\<close>

definition failing :: "call list \<Rightarrow> call \<Rightarrow> nat action" where
  "failing bad c n = (if c \<in> set bad then (Some (JsError ''Error'' ''boom''), n) else (None, Suc n))"

definition counting_subsystems :: "call list \<Rightarrow> js_error option \<Rightarrow> nat subsystems" where
  "counting_subsystems bad rej =
     \<lparr>db_initialize = failing bad DatabaseInitialize, storage_initialize = failing bad StorageInitialize,
      log_initialize = failing bad LogInitialize, initSqlParser = failing bad InitSqlParser,
      seedBackend = failing bad SeedBackend, app_listen = failing bad Listen,
      socket_initialize = failing bad SocketInitialize,
      realtime_initialize = failing bad RealtimeInitialize,
      syncDeployment = failing bad SyncDeployment, syncDeployment_rejects = (\<lambda>n. rej),
      realtime_close = failing bad RealtimeClose, socket_close = failing bad SocketClose,
      pkce_destroy = failing bad OAuthPKCEDestroy,
      destroyEmailCooldownInterval = failing bad DestroyEmailCooldownInterval\<rparr>"

definition fresh :: "nat process" where
  "fresh = \<lparr>world = 0, calls = [], logged = [], exit_code = None\<rparr>"

section \<open>The request telemetry middleware (lines 89 to 156 of the server entry point)\<close>



















section \<open>Properties of the gateway\<close>

















lemma handler_after_build:
  "snd (functionProxyHandler env req) =
     (case buildUpstreamRequest env req of
        Inl e \<Rightarrow> gateway_error e
      | Inr fr \<Rightarrow>
          (case fetch env fr of
             Inl e \<Rightarrow> gateway_error e
           | Inr up \<Rightarrow>
               (case up_arrayBuffer up of
                  Inl e \<Rightarrow> gateway_error e
                | Inr responseBody \<Rightarrow> relay up responseBody)))"
proof (cases "resolveBaseUrl env")
  case (Inl e)
  then show ?thesis
    by (simp add: functionProxyHandler_def buildUpstreamRequest_def failed_def)
next
  case b: (Inr baseUrl)
  show ?thesis
  proof (cases "buildTargetUrl env req baseUrl")
    case (Inl e)
    with b show ?thesis
      by (simp add: functionProxyHandler_def buildUpstreamRequest_def failed_def)
  next
    case t: (Inr targetUrl)
    show ?thesis
    proof (cases "upstreamBody env req")
      case (Inl e)
      with b t show ?thesis
        by (simp add: functionProxyHandler_def buildUpstreamRequest_def failed_def)
    next
      case (Inr body)
      with b t show ?thesis
        by (simp add: functionProxyHandler_def buildUpstreamRequest_def failed_def
            split: sum.splits)
    qed
  qed
qed








lemmas char_class_defs = is_lower_letter_def is_upper_letter_def is_digit_def is_printable_def
  is_plain_path_char_def in_query_set_def is_tab_or_newline_def

lemmas url_defs = URL_new_def parse_origin_form_def plain_http_base_def plain_host_port_def
  plain_port_def origin_form_def encode_query_def set_search_def search_def href_def
  percent_encode_def hex_digit_def

lemmas gateway_defs = buildUpstreamRequest_def resolveBaseUrl_def localRuntime_def
  buildTargetUrl_def incoming_host_def buildHeaders_def upstreamBody_def

lemma build_hello: "buildUpstreamRequest env_local req_hello = Inr fr_hello"
  by (simp add: gateway_defs url_defs char_class_defs env_local_def req_hello_def fr_hello_def)



lemma build_post: "buildUpstreamRequest env_managed req_post = Inr fr_post"
  by (simp add: gateway_defs url_defs char_class_defs env_managed_def req_post_def fr_post_def)

text \<open>
  Claim C2. The base URL is computed from the collaborators' present answers on every call
  (\<open>resolveBaseUrl\<close> takes nothing else and keeps nothing): when the function service reports
  itself configured and returns a non-empty deployment URL, that URL is the base; when it is not
  configured, or returns no URL or an empty one, the base is the local runtime URL, which is
  \<open>DENO_RUNTIME_URL\<close> when set and \<open>http://localhost:7133\<close> when unset. The request sent
  upstream is built from that base.
\<close>

theorem base_url_resolution:
  "(getInstance env = None \<and> isSubhostingConfigured env = Inr True
      \<and> getDeploymentUrl env = Inr (Some u) \<and> u \<noteq> [] \<longrightarrow> resolveBaseUrl env = Inr u)
   \<and> (getInstance env = None
      \<and> (isSubhostingConfigured env = Inr False
          \<or> isSubhostingConfigured env = Inr True
            \<and> (getDeploymentUrl env = Inr None \<or> getDeploymentUrl env = Inr (Some [])))
      \<longrightarrow> resolveBaseUrl env = Inr (localRuntime env))
   \<and> (DENO_RUNTIME_URL env = None \<longrightarrow> localRuntime env = ''http://localhost:7133'')
   \<and> (DENO_RUNTIME_URL env = Some l \<and> l \<noteq> [] \<longrightarrow> localRuntime env = l)
   \<and> (resolveBaseUrl env = Inr b \<longrightarrow>
        buildUpstreamRequest env req =
          (case buildTargetUrl env req b of
             Inl e \<Rightarrow> Inl e
           | Inr t \<Rightarrow> (case upstreamBody env req of
                 Inl e \<Rightarrow> Inl e
               | Inr body \<Rightarrow> Inr \<lparr>fr_url = href t, fr_method = req_method req,
                                  fr_headers = buildHeaders req t, fr_body = body\<rparr>)))"
proof (intro conjI impI)
  assume "getInstance env = None \<and> isSubhostingConfigured env = Inr True
      \<and> getDeploymentUrl env = Inr (Some u) \<and> u \<noteq> []"
  then show "resolveBaseUrl env = Inr u" by (simp add: resolveBaseUrl_def)
next
  assume "getInstance env = None
      \<and> (isSubhostingConfigured env = Inr False
          \<or> isSubhostingConfigured env = Inr True
            \<and> (getDeploymentUrl env = Inr None \<or> getDeploymentUrl env = Inr (Some [])))"
  then show "resolveBaseUrl env = Inr (localRuntime env)"
    by (auto simp: resolveBaseUrl_def)
next
  assume "DENO_RUNTIME_URL env = None"
  then show "localRuntime env = ''http://localhost:7133''" by (simp add: localRuntime_def)
next
  assume "DENO_RUNTIME_URL env = Some l \<and> l \<noteq> []"
  then show "localRuntime env = l" by (simp add: localRuntime_def)
next
  assume "resolveBaseUrl env = Inr b"
  then show "buildUpstreamRequest env req =
          (case buildTargetUrl env req b of
             Inl e \<Rightarrow> Inl e
           | Inr t \<Rightarrow> (case upstreamBody env req of
                 Inl e \<Rightarrow> Inl e
               | Inr body \<Rightarrow> Inr \<lparr>fr_url = href t, fr_method = req_method req,
                                  fr_headers = buildHeaders req t, fr_body = body\<rparr>))"
    by (simp add: buildUpstreamRequest_def)
qed

theorem base_url_resolution_witness:
  "resolveBaseUrl env_managed = Inr ''http://functions.example''
   \<and> resolveBaseUrl env_local = Inr ''http://localhost:7133''
   \<and> resolveBaseUrl (env_managed\<lparr>getDeploymentUrl := Inr None\<rparr>) = Inr ''http://deno:7133''"
proof -
  let ?e = "env_managed\<lparr>getDeploymentUrl := Inr None\<rparr>"
  have m: "getInstance env_managed = None \<and> isSubhostingConfigured env_managed = Inr True
      \<and> getDeploymentUrl env_managed = Inr (Some ''http://functions.example'')
      \<and> ''http://functions.example'' \<noteq> []"
    by (simp add: env_managed_def)
  have l: "getInstance env_local = None \<and> isSubhostingConfigured env_local = Inr False
      \<and> DENO_RUNTIME_URL env_local = None"
    by (simp add: env_local_def)
  have n: "getInstance ?e = None \<and> isSubhostingConfigured ?e = Inr True
      \<and> getDeploymentUrl ?e = Inr None \<and> DENO_RUNTIME_URL ?e = Some ''http://deno:7133''"
    by (simp add: env_managed_def)
  show ?thesis
    using base_url_resolution [of env_managed "''http://functions.example''"]
      base_url_resolution [of env_local] base_url_resolution [of ?e _ "''http://deno:7133''"] m l n
    by simp
qed

text \<open>
  Claim C3. The request handed to \<open>fetch\<close> has no body when the method is GET or HEAD, and
  for every other method its body is what \<open>JSON.stringify\<close> gives for the parsed request body.
\<close>

theorem upstream_body_by_method:
  assumes "buildUpstreamRequest env req = Inr fr"
  shows "(req_method req = ''GET'' \<or> req_method req = ''HEAD'' \<longrightarrow> fr_body fr = None)
     \<and> (req_method req \<noteq> ''GET'' \<and> req_method req \<noteq> ''HEAD'' \<longrightarrow>
          JSON_stringify env (req_body req) = Inr (fr_body fr))
     \<and> snd (functionProxyHandler env req) =
          (case fetch env fr of
             Inl e \<Rightarrow> gateway_error e
           | Inr up \<Rightarrow> (case up_arrayBuffer up of
                 Inl e \<Rightarrow> gateway_error e
               | Inr responseBody \<Rightarrow> relay up responseBody))"
proof -
  from assms have b: "upstreamBody env req = Inr (fr_body fr)"
    by (auto simp: buildUpstreamRequest_def split: sum.splits)
  have h: "snd (functionProxyHandler env req) =
          (case fetch env fr of
             Inl e \<Rightarrow> gateway_error e
           | Inr up \<Rightarrow> (case up_arrayBuffer up of
                 Inl e \<Rightarrow> gateway_error e
               | Inr responseBody \<Rightarrow> relay up responseBody))"
    using assms by (simp add: handler_after_build)
  from b h show ?thesis by (auto simp: upstreamBody_def split: if_splits)
qed

theorem upstream_body_by_method_witness:
  "buildUpstreamRequest env_local req_hello = Inr fr_hello \<and> req_method req_hello = ''GET''
   \<and> fr_body fr_hello = None
   \<and> buildUpstreamRequest env_managed req_post = Inr fr_post \<and> req_method req_post = ''POST''
   \<and> JSON_stringify env_managed (req_body req_post) = Inr (Some ''{}'') \<and> fr_body fr_post = Some ''{}''"
proof -
  have g: "req_method req_hello = ''GET''" by (simp add: req_hello_def)
  have p: "req_method req_post = ''POST''" by (simp add: req_post_def)
  have f: "fr_body fr_post = Some ''{}''" by (simp add: fr_post_def)
  show ?thesis
    using upstream_body_by_method [OF build_hello] upstream_body_by_method [OF build_post]
      build_hello build_post g p f
    by simp
qed

























lemma empty_query_dropped:
  "buildUpstreamRequest env_local req_bare =
       Inr \<lparr>fr_url = ''http://localhost:7133/hello'', fr_method = ''GET'',
            fr_headers = [(''host'', ''localhost:7133''), (''accept'', ''*/*'')],
            fr_body = None\<rparr>"
  by (simp add: gateway_defs url_defs char_class_defs env_local_def req_hello_def req_bare_def)

section \<open>Properties of startup and shutdown\<close>

lemma perform_calls: "calls (snd (perform c a p)) = calls p @ [c]"
  by (simp add: perform_def split: prod.splits)

lemma perform_world: "world (snd (perform c a p)) = snd (a (world p))"
  by (simp add: perform_def split: prod.splits)


lemma perform_logged: "logged (snd (perform c a p)) = logged p"
  by (simp add: perform_def split: prod.splits)

lemma guarded_eq:
  "guarded c msg a p =
     (snd (perform c a p))\<lparr>logged := logged p @
        (case fst (a (world p)) of Some e \<Rightarrow> [log_error msg e] | None \<Rightarrow> [])\<rparr>"
  by (cases "perform c a p"; cases "a (world p)")
     (auto simp: guarded_def perform_def split: option.splits)

lemma guarded_calls: "calls (guarded c msg a p) = calls p @ [c]"
  by (simp add: guarded_eq perform_calls)

lemma guarded_world: "world (guarded c msg a p) = snd (a (world p))"
  by (simp add: guarded_eq perform_world)

lemma guarded_logged:
  "logged (guarded c msg a p) =
     logged p @ (case fst (a (world p)) of Some e \<Rightarrow> [log_error msg e] | None \<Rightarrow> [])"
  by (simp add: guarded_eq)

lemma cleanup_calls:
  "calls (cleanup s p) =
     calls p @ [RealtimeClose, SocketClose, OAuthPKCEDestroy, DestroyEmailCooldownInterval]"
  by (simp add: cleanup_def Let_def guarded_calls)

lemma cleanup_exit: "exit_code (cleanup s p) = Some 0"
  by (simp add: cleanup_def Let_def)

lemma cleanup_world:
  "world (cleanup s p) =
     snd (destroyEmailCooldownInterval s (snd (pkce_destroy s
       (snd (socket_close s (snd (realtime_close s (world p))))))))"
  by (simp add: cleanup_def Let_def guarded_world)


lemma cleanup_logged:
  "logged (cleanup s p) =
     logged p @ [log_info ''Shutting down gracefully...'']
     @ (case fst (realtime_close s (world p)) of
          Some e \<Rightarrow> [log_error ''Error closing RealtimeManager'' e] | None \<Rightarrow> [])
     @ (case fst (socket_close s (snd (realtime_close s (world p)))) of
          Some e \<Rightarrow> [log_error ''Error closing SocketManager'' e] | None \<Rightarrow> [])
     @ (case fst (pkce_destroy s (snd (socket_close s (snd (realtime_close s (world p)))))) of
          Some e \<Rightarrow> [log_error ''Error closing OAuthPKCEService'' e] | None \<Rightarrow> [])
     @ (case fst (destroyEmailCooldownInterval s (snd (pkce_destroy s
                (snd (socket_close s (snd (realtime_close s (world p)))))))) of
          Some e \<Rightarrow> [log_error ''Error clearing email cooldown interval'' e] | None \<Rightarrow> [])"
  by (simp add: cleanup_def Let_def guarded_logged guarded_world)

text \<open>
  Claim C6. Shutdown makes the four teardown calls in the fixed order - close the notification
  listener, close the socket hub, destroy the session store, clear the interval timer - each on
  the world the previous one left, whether or not any of them raised; an error raised by one of
  them is logged; and the process then exits with status 0.
\<close>

theorem cleanup_isolated:
  "calls (cleanup s p) =
     calls p @ [RealtimeClose, SocketClose, OAuthPKCEDestroy, DestroyEmailCooldownInterval]
   \<and> world (cleanup s p) =
     snd (destroyEmailCooldownInterval s (snd (pkce_destroy s
       (snd (socket_close s (snd (realtime_close s (world p))))))))
   \<and> exit_code (cleanup s p) = Some 0
   \<and> (fst (realtime_close s (world p)) = Some e \<longrightarrow>
        log_error ''Error closing RealtimeManager'' e \<in> set (logged (cleanup s p)))
   \<and> (fst (socket_close s (snd (realtime_close s (world p)))) = Some e \<longrightarrow>
        log_error ''Error closing SocketManager'' e \<in> set (logged (cleanup s p)))
   \<and> (fst (pkce_destroy s (snd (socket_close s (snd (realtime_close s (world p)))))) = Some e \<longrightarrow>
        log_error ''Error closing OAuthPKCEService'' e \<in> set (logged (cleanup s p)))
   \<and> (fst (destroyEmailCooldownInterval s (snd (pkce_destroy s
              (snd (socket_close s (snd (realtime_close s (world p)))))))) = Some e \<longrightarrow>
        log_error ''Error clearing email cooldown interval'' e \<in> set (logged (cleanup s p)))"
  by (simp add: cleanup_calls cleanup_world cleanup_exit cleanup_logged)

theorem cleanup_isolated_witness:
  "fst (realtime_close (counting_subsystems [RealtimeClose] None) (world fresh))
     = Some (JsError ''Error'' ''boom'')
   \<and> calls (cleanup (counting_subsystems [RealtimeClose] None) fresh) =
       [RealtimeClose, SocketClose, OAuthPKCEDestroy, DestroyEmailCooldownInterval]
   \<and> world (cleanup (counting_subsystems [RealtimeClose] None) fresh) = 3
   \<and> exit_code (cleanup (counting_subsystems [RealtimeClose] None) fresh) = Some 0
   \<and> log_error ''Error closing RealtimeManager'' (JsError ''Error'' ''boom'')
       \<in> set (logged (cleanup (counting_subsystems [RealtimeClose] None) fresh))"
proof -
  have f: "fst (realtime_close (counting_subsystems [RealtimeClose] None) (world fresh))
     = Some (JsError ''Error'' ''boom'')"
    by (simp add: counting_subsystems_def failing_def)
  have c: "calls fresh = []" "world fresh = 0" by (simp_all add: fresh_def)
  have w: "snd (destroyEmailCooldownInterval (counting_subsystems [RealtimeClose] None)
      (snd (pkce_destroy (counting_subsystems [RealtimeClose] None)
       (snd (socket_close (counting_subsystems [RealtimeClose] None)
        (snd (realtime_close (counting_subsystems [RealtimeClose] None) 0))))))) = 3"
    by (simp add: counting_subsystems_def failing_def)
  show ?thesis
    using cleanup_isolated [of "counting_subsystems [RealtimeClose] None" fresh "JsError ''Error'' ''boom''"] f
    by (simp add: c w)
qed

















section \<open>Properties of the telemetry middleware\<close>











end
